theory Spec2Isabelle
  imports Complex_Main
begin

section \<open>Tensor elements\<close>

text \<open>
  The notebook computes on \<^verbatim>\<open>torch\<close> float tensors. An element is modelled as a
  real number or one of the three special values of IEEE 754 arithmetic. The special
  values behave as IEEE 754 prescribes; arithmetic on finite values is exact, so rounding,
  overflow to infinity, underflow and the sign of zero are not part of the model.
\<close>

datatype fval = Fin real | PInf | NInf | NaN

fun fadd :: "fval \<Rightarrow> fval \<Rightarrow> fval" where
  "fadd (Fin a) (Fin b) = Fin (a + b)"
| "fadd NaN y = NaN"
| "fadd x NaN = NaN"
| "fadd PInf NInf = NaN"
| "fadd NInf PInf = NaN"
| "fadd PInf y = PInf"
| "fadd x PInf = PInf"
| "fadd NInf y = NInf"
| "fadd x NInf = NInf"

fun fmul :: "fval \<Rightarrow> fval \<Rightarrow> fval" where
  "fmul (Fin a) (Fin b) = Fin (a * b)"
| "fmul NaN y = NaN"
| "fmul x NaN = NaN"
| "fmul (Fin a) PInf = (if a = 0 then NaN else if 0 < a then PInf else NInf)"
| "fmul (Fin a) NInf = (if a = 0 then NaN else if 0 < a then NInf else PInf)"
| "fmul PInf (Fin b) = (if b = 0 then NaN else if 0 < b then PInf else NInf)"
| "fmul NInf (Fin b) = (if b = 0 then NaN else if 0 < b then NInf else PInf)"
| "fmul PInf PInf = PInf"
| "fmul PInf NInf = NInf"
| "fmul NInf PInf = NInf"
| "fmul NInf NInf = PInf"

text \<open>
  \<^verbatim>\<open>torch.pow(v, -0.5)\<close> on one element: zero gives \<open>+inf\<close>, a negative number gives
  NaN, both infinities give zero, NaN stays NaN.
\<close>

fun pow_neg_half :: "fval \<Rightarrow> fval" where
  "pow_neg_half (Fin d) =
     (if d = 0 then PInf else if d < 0 then NaN else Fin (d powr (- (1 / 2))))"
| "pow_neg_half PInf = Fin 0"
| "pow_neg_half NInf = Fin 0"
| "pow_neg_half NaN = NaN"

fun isinf :: "fval \<Rightarrow> bool" where
  "isinf PInf = True"
| "isinf NInf = True"
| "isinf v = False"


fun is_fin :: "fval \<Rightarrow> bool" where
  "is_fin (Fin a) = True"
| "is_fin v = False"

text \<open>\<^verbatim>\<open>F.relu\<close> on one element: \<open>max(0, v)\<close>, NaN stays NaN.\<close>

fun relu_val :: "fval \<Rightarrow> fval" where
  "relu_val (Fin a) = Fin (max 0 a)"
| "relu_val PInf = PInf"
| "relu_val NInf = Fin 0"
| "relu_val NaN = NaN"

text \<open>
  The sum of a list of elements. With exact finite arithmetic \<open>fadd\<close> is associative
  and commutative, so the order in which \<^verbatim>\<open>torch\<close> adds does not matter.
\<close>

primrec fsum :: "fval list \<Rightarrow> fval" where
  "fsum [] = Fin 0"
| "fsum (v # vs) = fadd v (fsum vs)"

section \<open>Two-dimensional tensors\<close>

text \<open>
  A 2-D tensor carries its shape: the number of rows is the length of \<open>rows\<close>, the
  number of columns is stored, so that a tensor with no rows still has a column count,
  as in \<^verbatim>\<open>torch\<close>. Every row of a well-formed tensor has \<open>ncols\<close> entries.
\<close>

record tensor =
  ncols :: nat
  rows :: "fval list list"

definition nrows :: "tensor \<Rightarrow> nat" where
  "nrows t = length (rows t)"

definition wf_tensor :: "tensor \<Rightarrow> bool" where
  "wf_tensor t = list_all (\<lambda>r. length r = ncols t) (rows t)"

definition has_shape :: "nat \<Rightarrow> nat \<Rightarrow> tensor \<Rightarrow> bool" where
  "has_shape n m t = (nrows t = n \<and> ncols t = m \<and> wf_tensor t)"

definition entry :: "tensor \<Rightarrow> nat \<Rightarrow> nat \<Rightarrow> fval" where
  "entry t i j = rows t ! i ! j"

definition mk :: "nat \<Rightarrow> nat \<Rightarrow> (nat \<Rightarrow> nat \<Rightarrow> fval) \<Rightarrow> tensor" where
  "mk n m f = \<lparr>ncols = m, rows = map (\<lambda>i. map (\<lambda>j. f i j) [0..<m]) [0..<n]\<rparr>"

text \<open>The runtime error \<^verbatim>\<open>torch\<close> raises when shapes do not fit.\<close>

datatype error = ShapeError

text \<open>
  Broadcasting of one dimension: equal sizes stay, a size of 1 stretches to the other
  size, anything else is an error.
\<close>

definition bdim :: "nat \<Rightarrow> nat \<Rightarrow> nat option" where
  "bdim a b = (if a = b then Some a else if a = 1 then Some b
               else if b = 1 then Some a else None)"

definition bidx :: "nat \<Rightarrow> nat \<Rightarrow> nat" where
  "bidx sz i = (if sz = 1 then 0 else i)"

definition broadcast2 ::
  "(fval \<Rightarrow> fval \<Rightarrow> fval) \<Rightarrow> tensor \<Rightarrow> tensor \<Rightarrow> error + tensor" where
  "broadcast2 f a b =
     (case (bdim (nrows a) (nrows b), bdim (ncols a) (ncols b)) of
        (Some n, Some m) \<Rightarrow>
          Inr (mk n m (\<lambda>i j. f (entry a (bidx (nrows a) i) (bidx (ncols a) j))
                               (entry b (bidx (nrows b) i) (bidx (ncols b) j))))
      | _ \<Rightarrow> Inl ShapeError)"

text \<open>\<^verbatim>\<open>a * b\<close> and \<^verbatim>\<open>a + b\<close> on tensors: elementwise, with broadcasting.\<close>

definition torch_mul :: "tensor \<Rightarrow> tensor \<Rightarrow> error + tensor" where
  "torch_mul a b = broadcast2 fmul a b"

definition torch_add :: "tensor \<Rightarrow> tensor \<Rightarrow> error + tensor" where
  "torch_add a b = broadcast2 fadd a b"

text \<open>\<^verbatim>\<open>torch.sum(t, dim=1, keepdim=True)\<close>: one column holding the row sums.\<close>

definition torch_sum_dim1 :: "tensor \<Rightarrow> tensor" where
  "torch_sum_dim1 t = mk (nrows t) 1 (\<lambda>i j. fsum (rows t ! i))"

text \<open>\<^verbatim>\<open>torch.pow(t, -0.5)\<close>: a new tensor of the same shape.\<close>

definition torch_pow_neg_half :: "tensor \<Rightarrow> tensor" where
  "torch_pow_neg_half t = t\<lparr>rows := map (map pow_neg_half) (rows t)\<rparr>"

text \<open>\<^verbatim>\<open>torch.isinf(t)\<close>: the boolean mask of the infinite entries.\<close>

definition torch_isinf :: "tensor \<Rightarrow> bool list list" where
  "torch_isinf t = map (map isinf) (rows t)"

text \<open>\<^verbatim>\<open>t[mask] = v\<close>: the entries under the mask are overwritten with \<open>v\<close>.\<close>

definition masked_assign :: "tensor \<Rightarrow> bool list list \<Rightarrow> fval \<Rightarrow> tensor" where
  "masked_assign t msk v =
     t\<lparr>rows := map2 (\<lambda>r ms. map2 (\<lambda>x m. if m then v else x) r ms) (rows t) msk\<rparr>"

text \<open>\<^verbatim>\<open>t.transpose(0, 1)\<close>.\<close>

definition torch_transpose :: "tensor \<Rightarrow> tensor" where
  "torch_transpose t = mk (ncols t) (nrows t) (\<lambda>i j. entry t j i)"

text \<open>\<^verbatim>\<open>torch.mm(a, b)\<close>: the matrix product; the inner sizes must agree.\<close>

definition torch_mm :: "tensor \<Rightarrow> tensor \<Rightarrow> error + tensor" where
  "torch_mm a b =
     (if ncols a = nrows b
      then Inr (mk (nrows a) (ncols b)
                  (\<lambda>i j. fsum (map (\<lambda>k. fmul (entry a i k) (entry b k j)) [0..<ncols a])))
      else Inl ShapeError)"

text \<open>\<^verbatim>\<open>F.relu(t)\<close>: a new tensor, elementwise.\<close>

definition relu :: "tensor \<Rightarrow> tensor" where
  "relu t = t\<lparr>rows := map (map relu_val) (rows t)\<rparr>"

text \<open>\<^verbatim>\<open>torch.eye(n)\<close> and \<^verbatim>\<open>torch.zeros(n, m)\<close>.\<close>

definition eye :: "nat \<Rightarrow> tensor" where
  "eye n = mk n n (\<lambda>i j. if i = j then Fin 1 else Fin 0)"


section \<open>The GCN layer and the two-layer network\<close>

text \<open>
  \<^verbatim>\<open>nn.Linear(in_features, out_features, bias=False)\<close> holds one parameter, the weight
  of shape \<open>(out_features, in_features)\<close>, and maps \<open>x\<close> to \<open>x \<cdot> weight\<^sup>T\<close>.
\<close>

record SimpleGCNLayer =
  weight :: tensor

definition linear_fwd :: "SimpleGCNLayer \<Rightarrow> tensor \<Rightarrow> error + tensor" where
  "linear_fwd l x = torch_mm x (torch_transpose (weight l))"

text \<open>
  The first statements of \<^verbatim>\<open>SimpleGCNLayer.forward\<close>:
  \<^verbatim>\<open>
  degree = torch.sum(adj, dim=1, keepdim=True)
  degree_inv_sqrt = torch.pow(degree, -0.5)
  degree_inv_sqrt[torch.isinf(degree_inv_sqrt)] = 0.0  # prevent inf
  adj_norm = degree_inv_sqrt * adj * degree_inv_sqrt.transpose(0, 1)
  \<close>
\<close>

definition degree :: "tensor \<Rightarrow> tensor" where
  "degree adj = torch_sum_dim1 adj"

definition degree_inv_sqrt :: "tensor \<Rightarrow> tensor" where
  "degree_inv_sqrt adj =
     (let d = torch_pow_neg_half (degree adj)
      in masked_assign d (torch_isinf d) (Fin 0))"

definition adj_norm :: "tensor \<Rightarrow> error + tensor" where
  "adj_norm adj =
     (let dis = degree_inv_sqrt adj
      in case torch_mul dis adj of
           Inl e \<Rightarrow> Inl e
         | Inr t \<Rightarrow> torch_mul t (torch_transpose dis))"

text \<open>
  \<^verbatim>\<open>
  def forward(self, x, adj):
      ... adj_norm as above ...
      x = torch.mm(adj_norm, x)
      x = self.linear(x)
      return x
  \<close>
\<close>

definition SimpleGCNLayer_forward :: "SimpleGCNLayer \<Rightarrow> tensor \<Rightarrow> tensor \<Rightarrow> error + tensor" where
  "SimpleGCNLayer_forward l x adj =
     (case adj_norm adj of
        Inl e \<Rightarrow> Inl e
      | Inr an \<Rightarrow>
          (case torch_mm an x of
             Inl e \<Rightarrow> Inl e
           | Inr x1 \<Rightarrow> linear_fwd l x1))"

record SimpleGCN =
  gcn1 :: SimpleGCNLayer
  gcn2 :: SimpleGCNLayer

text \<open>
  \<^verbatim>\<open>
  def forward(self, x, adj):
      x = self.gcn1(x, adj)
      x = F.relu(x)
      x = self.gcn2(x, adj)
      return x
  \<close>
\<close>

definition SimpleGCN_forward :: "SimpleGCN \<Rightarrow> tensor \<Rightarrow> tensor \<Rightarrow> error + tensor" where
  "SimpleGCN_forward g x adj =
     (case SimpleGCNLayer_forward (gcn1 g) x adj of
        Inl e \<Rightarrow> Inl e
      | Inr x1 \<Rightarrow> SimpleGCNLayer_forward (gcn2 g) (relu x1) adj)"

section \<open>Auxiliary notions for the statements\<close>

text \<open>
  The value that \<open>degree_inv_sqrt\<close> holds for a node of degree \<open>d\<close>: the power, with
  zero written over an infinite result.
\<close>

definition dis_val :: "fval \<Rightarrow> fval" where
  "dis_val d = (if isinf (pow_neg_half d) then Fin 0 else pow_neg_half d)"


section \<open>The design that normalizes once\<close>

text \<open>
  The alternative design of the specification: the adjacency is normalized once, and each
  layer receives the normalized matrix, aggregates with it and projects.
\<close>

definition graph_conv :: "SimpleGCNLayer \<Rightarrow> tensor \<Rightarrow> tensor \<Rightarrow> error + tensor" where
  "graph_conv l x a_norm =
     (case torch_mm a_norm x of
        Inl e \<Rightarrow> Inl e
      | Inr x_agg \<Rightarrow> linear_fwd l x_agg)"

definition normalize_once_forward :: "SimpleGCN \<Rightarrow> tensor \<Rightarrow> tensor \<Rightarrow> error + tensor" where
  "normalize_once_forward g x adj =
     (case adj_norm adj of
        Inl e \<Rightarrow> Inl e
      | Inr a_norm \<Rightarrow>
          (case graph_conv (gcn1 g) x a_norm of
             Inl e \<Rightarrow> Inl e
           | Inr x1 \<Rightarrow> graph_conv (gcn2 g) (relu x1) a_norm))"

section \<open>The two-layer stack as the specification words it\<close>

text \<open>
  These definitions follow the words of the specification, not the code. The normalizer
  (4.1): \<open>d[i]\<close> is the sum of row \<open>i\<close>, \<open>d_inv_sqrt[i] = d[i]^(-0.5)\<close> with \<open>0.0\<close>
  where \<open>d[i] = 0\<close>, and \<open>A_norm[i,j] = d_inv_sqrt[i] * A[i,j] * d_inv_sqrt[j]\<close>. The
  projection (4.2) is \<open>H \<cdot> W\<close> with \<open>W\<close> of shape \<open>d_in \<times> d_out\<close>. A layer (4.3)
  aggregates with \<open>A_norm\<close> and projects. The stack (4.4) takes the raw adjacency, adds
  the self-loops \<open>A + I\<close>, normalizes once and runs the two layers with a rectifier in
  between.
\<close>

definition spec_d_inv_sqrt :: "tensor \<Rightarrow> nat \<Rightarrow> fval" where
  "spec_d_inv_sqrt a i =
     (let d = fsum (map (\<lambda>j. entry a i j) [0..<ncols a])
      in if d = Fin 0 then Fin 0 else pow_neg_half d)"

definition spec_normalizer :: "tensor \<Rightarrow> error + tensor" where
  "spec_normalizer a =
     (if nrows a = ncols a
      then Inr (mk (nrows a) (ncols a)
                  (\<lambda>i j. fmul (fmul (spec_d_inv_sqrt a i) (entry a i j)) (spec_d_inv_sqrt a j)))
      else Inl ShapeError)"

definition spec_linear :: "tensor \<Rightarrow> tensor \<Rightarrow> error + tensor" where
  "spec_linear h w = torch_mm h w"

definition spec_graph_conv :: "tensor \<Rightarrow> tensor \<Rightarrow> tensor \<Rightarrow> error + tensor" where
  "spec_graph_conv w x a_norm =
     (case torch_mm a_norm x of
        Inl e \<Rightarrow> Inl e
      | Inr x_agg \<Rightarrow> spec_linear x_agg w)"

definition spec_forward :: "tensor \<Rightarrow> tensor \<Rightarrow> tensor \<Rightarrow> tensor \<Rightarrow> error + tensor" where
  "spec_forward w1 w2 x a =
     (case torch_add a (eye (nrows a)) of
        Inl e \<Rightarrow> Inl e
      | Inr a_tilde \<Rightarrow>
          (case spec_normalizer a_tilde of
             Inl e \<Rightarrow> Inl e
           | Inr a_norm \<Rightarrow>
               (case spec_graph_conv w1 x a_norm of
                  Inl e \<Rightarrow> Inl e
                | Inr layer1_out \<Rightarrow> spec_graph_conv w2 (relu layer1_out) a_norm)))"

section \<open>One node on its own\<close>



section \<open>The forward pass on a store of tensors\<close>

text \<open>
  To speak about what a call changes, tensors live in a store: a list of tensors, an
  address being a position in it. A tensor object is an address with a flag telling
  whether it is the transposed view of the stored tensor (\<^verbatim>\<open>t.transpose(0, 1)\<close> returns
  a view on the same storage). Every \<^verbatim>\<open>torch\<close> function used by the forward pass
  returns a new tensor, so it allocates; \<^verbatim>\<open>transpose\<close> allocates nothing; the only
  write into existing storage is \<^verbatim>\<open>degree_inv_sqrt[mask] = 0.0\<close>. The boolean mask is a
  temporary that nothing else refers to and is kept as a value. The parameters of the
  layers are tensors in the store as well.
\<close>

type_synonym heap = "tensor list"

record tref =
  addr :: nat
  transposed :: bool

definition deref :: "heap \<Rightarrow> tref \<Rightarrow> tensor" where
  "deref h r = (if transposed r then torch_transpose (h ! addr r) else h ! addr r)"

definition alloc :: "tensor \<Rightarrow> heap \<Rightarrow> tref \<times> heap" where
  "alloc t h = (\<lparr>addr = length h, transposed = False\<rparr>, h @ [t])"

definition alloc_result :: "error + tensor \<Rightarrow> heap \<Rightarrow> (error + tref) \<times> heap" where
  "alloc_result res h =
     (case res of
        Inl e \<Rightarrow> (Inl e, h)
      | Inr t \<Rightarrow> (case alloc t h of (r, h') \<Rightarrow> (Inr r, h')))"

definition st_sum_dim1 :: "tref \<Rightarrow> heap \<Rightarrow> tref \<times> heap" where
  "st_sum_dim1 r h = alloc (torch_sum_dim1 (deref h r)) h"

definition st_pow_neg_half :: "tref \<Rightarrow> heap \<Rightarrow> tref \<times> heap" where
  "st_pow_neg_half r h = alloc (torch_pow_neg_half (deref h r)) h"

definition st_isinf :: "tref \<Rightarrow> heap \<Rightarrow> bool list list" where
  "st_isinf r h = torch_isinf (deref h r)"

definition st_masked_assign :: "tref \<Rightarrow> bool list list \<Rightarrow> fval \<Rightarrow> heap \<Rightarrow> heap" where
  "st_masked_assign r msk v h =
     h[addr r := (if transposed r
                  then torch_transpose (masked_assign (deref h r) msk v)
                  else masked_assign (h ! addr r) msk v)]"

definition st_transpose :: "tref \<Rightarrow> tref" where
  "st_transpose r = r\<lparr>transposed := \<not> transposed r\<rparr>"

definition st_mul :: "tref \<Rightarrow> tref \<Rightarrow> heap \<Rightarrow> (error + tref) \<times> heap" where
  "st_mul a b h = alloc_result (torch_mul (deref h a) (deref h b)) h"

definition st_mm :: "tref \<Rightarrow> tref \<Rightarrow> heap \<Rightarrow> (error + tref) \<times> heap" where
  "st_mm a b h = alloc_result (torch_mm (deref h a) (deref h b)) h"

definition st_relu :: "tref \<Rightarrow> heap \<Rightarrow> tref \<times> heap" where
  "st_relu r h = alloc (relu (deref h r)) h"

record SimpleGCNLayer_obj =
  weight_ref :: tref

definition st_linear :: "SimpleGCNLayer_obj \<Rightarrow> tref \<Rightarrow> heap \<Rightarrow> (error + tref) \<times> heap" where
  "st_linear l x h =
     alloc_result (torch_mm (deref h x) (torch_transpose (deref h (weight_ref l)))) h"

text \<open>
  \<^verbatim>\<open>SimpleGCNLayer.forward\<close> statement by statement: the sum and the power allocate,
  the masked assignment writes into the tensor the power allocated, the first product is
  evaluated before the transposed view is taken, and an error leaves the store as it is
  at that point.
\<close>

definition SimpleGCNLayer_forward_st ::
  "SimpleGCNLayer_obj \<Rightarrow> tref \<Rightarrow> tref \<Rightarrow> heap \<Rightarrow> (error + tref) \<times> heap" where
  "SimpleGCNLayer_forward_st l x adj h0 =
     (case st_sum_dim1 adj h0 of (deg, h1) \<Rightarrow>
      case st_pow_neg_half deg h1 of (dis, h2) \<Rightarrow>
      let h3 = st_masked_assign dis (st_isinf dis h2) (Fin 0) h2
      in case st_mul dis adj h3 of
           (Inl e, h4) \<Rightarrow> (Inl e, h4)
         | (Inr t, h4) \<Rightarrow>
             (case st_mul t (st_transpose dis) h4 of
                (Inl e, h5) \<Rightarrow> (Inl e, h5)
              | (Inr an, h5) \<Rightarrow>
                  (case st_mm an x h5 of
                     (Inl e, h6) \<Rightarrow> (Inl e, h6)
                   | (Inr x1, h6) \<Rightarrow> st_linear l x1 h6)))"

record SimpleGCN_obj =
  gcn1_obj :: SimpleGCNLayer_obj
  gcn2_obj :: SimpleGCNLayer_obj

definition SimpleGCN_forward_st ::
  "SimpleGCN_obj \<Rightarrow> tref \<Rightarrow> tref \<Rightarrow> heap \<Rightarrow> (error + tref) \<times> heap" where
  "SimpleGCN_forward_st g x adj h0 =
     (case SimpleGCNLayer_forward_st (gcn1_obj g) x adj h0 of
        (Inl e, h1) \<Rightarrow> (Inl e, h1)
      | (Inr x1, h1) \<Rightarrow>
          (case st_relu x1 h1 of (x2, h2) \<Rightarrow>
             SimpleGCNLayer_forward_st (gcn2_obj g) x2 adj h2))"

text \<open>
  The values behind the objects: the parameters of a model read from the store, the
  value a call returns, and whether the returned object is allocated.
\<close>

definition layer_value :: "heap \<Rightarrow> SimpleGCNLayer_obj \<Rightarrow> SimpleGCNLayer" where
  "layer_value h l = \<lparr>weight = deref h (weight_ref l)\<rparr>"

definition model_value :: "heap \<Rightarrow> SimpleGCN_obj \<Rightarrow> SimpleGCN" where
  "model_value h g = \<lparr>gcn1 = layer_value h (gcn1_obj g), gcn2 = layer_value h (gcn2_obj g)\<rparr>"

definition result_value :: "(error + tref) \<times> heap \<Rightarrow> error + tensor" where
  "result_value res = (case res of (Inl e, h) \<Rightarrow> Inl e | (Inr r, h) \<Rightarrow> Inr (deref h r))"

definition result_valid :: "(error + tref) \<times> heap \<Rightarrow> bool" where
  "result_valid res = (case res of (Inl e, h) \<Rightarrow> True | (Inr r, h) \<Rightarrow> addr r < length h)"

section \<open>Basic facts about tensors\<close>

lemma nrows_mk [simp]: "nrows (mk n m f) = n"
  by (simp add: nrows_def mk_def)

lemma ncols_mk [simp]: "ncols (mk n m f) = m"
  by (simp add: mk_def)

lemma wf_mk [simp]: "wf_tensor (mk n m f)"
  by (simp add: wf_tensor_def mk_def list_all_iff)

lemma has_shape_mk [simp]: "has_shape n' m' (mk n m f) \<longleftrightarrow> n' = n \<and> m' = m"
  by (auto simp: has_shape_def)

lemma entry_mk [simp]: "i < n \<Longrightarrow> j < m \<Longrightarrow> entry (mk n m f) i j = f i j"
  by (simp add: entry_def mk_def)


lemma mk_cong:
  "n = n' \<Longrightarrow> m = m' \<Longrightarrow> (\<And>i j. i < n' \<Longrightarrow> j < m' \<Longrightarrow> f i j = g i j) \<Longrightarrow>
   mk n m f = mk n' m' g"
  by (simp add: mk_def)


lemma bidx_less [simp]: "i < n \<Longrightarrow> bidx n i = i"
  by (simp add: bidx_def)

lemma bidx_one [simp]: "bidx (Suc 0) i = 0"
  by (simp add: bidx_def)

lemma bdim_same [simp]: "bdim n n = Some n"
  by (simp add: bdim_def)

lemma bdim_one_left [simp]: "bdim (Suc 0) n = Some n"
  by (simp add: bdim_def)

lemma bdim_one_right [simp]: "bdim n (Suc 0) = Some n"
  by (auto simp add: bdim_def)

lemma degree_eq: "degree adj = mk (nrows adj) 1 (\<lambda>i j. fsum (rows adj ! i))"
  by (simp add: degree_def torch_sum_dim1_def)

lemma map2_map_right: "map2 f xs (map g xs) = map (\<lambda>x. f x (g x)) xs"
  by (induction xs) simp_all

lemma masked_assign_isinf:
  "masked_assign t (torch_isinf t) v =
     t\<lparr>rows := map (map (\<lambda>x. if isinf x then v else x)) (rows t)\<rparr>"
  by (simp add: masked_assign_def torch_isinf_def map2_map_right)

lemma degree_inv_sqrt_eq:
  "degree_inv_sqrt adj = mk (nrows adj) 1 (\<lambda>i j. dis_val (fsum (rows adj ! i)))"
  by (simp add: degree_inv_sqrt_def Let_def masked_assign_isinf degree_eq
      torch_pow_neg_half_def mk_def dis_val_def)

lemma adj_norm_square:
  assumes "has_shape n n adj"
  shows "adj_norm adj = Inr (mk n n (\<lambda>i j.
           fmul (fmul (dis_val (fsum (rows adj ! i))) (entry adj i j))
                (dis_val (fsum (rows adj ! j)))))"
proof -
  have s: "nrows adj = n" "ncols adj = n" using assms by (simp_all add: has_shape_def)
  show ?thesis
    by (simp add: adj_norm_def Let_def degree_inv_sqrt_eq torch_mul_def broadcast2_def s
        torch_transpose_def cong: mk_cong)
qed

section \<open>Arithmetic of the elements\<close>



lemma fadd_commute: "fadd a b = fadd b a"
  by (cases a; cases b) simp_all


lemma fadd_zero_left [simp]: "fadd (Fin 0) a = a"
  by (cases a) simp_all

lemma fadd_zero_right [simp]: "fadd a (Fin 0) = a"
  by (cases a) simp_all






section \<open>The normalizer\<close>








lemma has_shape_lit2:
  "has_shape 2 2 \<lparr>ncols = 2, rows = [[a, b], [c, d]]\<rparr>"
  by (simp add: has_shape_def nrows_def wf_tensor_def)


lemma one_powr_simp [simp]: "pow_neg_half (Fin 1) = Fin 1"
  by simp

lemma dis_val_simps [simp]:
  "dis_val (Fin 0) = Fin 0"
  "dis_val (Fin 1) = Fin 1"
  "d < 0 \<Longrightarrow> dis_val (Fin d) = NaN"
  "dis_val NaN = NaN"
  by (simp_all add: dis_val_def)

lemma adj_norm_lit2:
  "adj_norm \<lparr>ncols = 2, rows = [[a, b], [c, d]]\<rparr> =
     Inr \<lparr>ncols = 2, rows =
       [[fmul (fmul (dis_val (fadd a b)) a) (dis_val (fadd a b)),
         fmul (fmul (dis_val (fadd a b)) b) (dis_val (fadd c d))],
        [fmul (fmul (dis_val (fadd c d)) c) (dis_val (fadd a b)),
         fmul (fmul (dis_val (fadd c d)) d) (dis_val (fadd c d))]]\<rparr>"
  by (simp add: adj_norm_square [OF has_shape_lit2] mk_def entry_def upt_rec [of 0 2]
      upt_rec [of 1 2] upt_rec [of 2 2] upt_rec [of "Suc 0" 2])






lemma fmul_fin_zero: "is_fin a \<Longrightarrow> fmul a (Fin 0) = Fin 0"
  by (cases a) simp_all








section \<open>The forward pass\<close>

text \<open>
  Claim C5. Normalizing the adjacency once and giving the result to both layers returns
  the same value, or the same error, as \<^verbatim>\<open>SimpleGCN.forward\<close>, which normalizes again
  inside each layer, for every input.
\<close>

theorem normalize_once_equiv:
  "SimpleGCN_forward g x adj = normalize_once_forward g x adj"
  by (simp add: SimpleGCN_forward_def SimpleGCNLayer_forward_def normalize_once_forward_def
      graph_conv_def split: sum.splits)

lemma dis_val_spec: "dis_val d = (if d = Fin 0 then Fin 0 else pow_neg_half d)"
  by (cases d) (simp_all add: dis_val_def)

lemma row_eq_map_entry:
  assumes "has_shape n m t" and "i < n"
  shows "rows t ! i = map (\<lambda>j. entry t i j) [0..<m]"
proof -
  have "rows t ! i \<in> set (rows t)"
    using assms by (simp add: has_shape_def nrows_def)
  then have "length (rows t ! i) = m"
    using assms by (simp add: has_shape_def wf_tensor_def list_all_iff)
  then show ?thesis
    by (simp add: entry_def list_eq_iff_nth_eq)
qed

lemma spec_normalizer_eq_adj_norm:
  assumes sq: "has_shape n n a"
  shows "spec_normalizer a = adj_norm a"
proof -
  have s: "nrows a = n" "ncols a = n" using sq by (simp_all add: has_shape_def)
  have "spec_d_inv_sqrt a i = dis_val (fsum (rows a ! i))" if "i < n" for i
    using that by (simp add: spec_d_inv_sqrt_def s row_eq_map_entry [OF sq] dis_val_spec Let_def)
  then show ?thesis
    by (simp add: spec_normalizer_def s adj_norm_square [OF sq] cong: mk_cong)
qed

lemma torch_add_eye:
  assumes sq: "has_shape n n a"
  shows "torch_add a (eye n) =
           Inr (mk n n (\<lambda>i j. fadd (entry a i j) (if i = j then Fin 1 else Fin 0)))"
proof -
  have s: "nrows a = n" "ncols a = n" using sq by (simp_all add: has_shape_def)
  show ?thesis
    by (simp add: torch_add_def broadcast2_def s eye_def cong: mk_cong)
qed

text \<open>
  Claim C1, as amended. \<^verbatim>\<open>SimpleGCN.forward\<close> adds no self-loops: it expects them in its
  argument. For every raw square adjacency \<open>A\<close> and every \<open>X\<close>, the forward pass called
  on \<open>A + I\<close> returns what the two-layer stack of the specification returns on \<open>A\<close>:
  the two layers applied to the self-looped, normalized adjacency.
\<close>

theorem forward_on_self_looped:
  assumes sq: "has_shape n n a"
  shows "\<exists>a_tilde. torch_add a (eye n) = Inr a_tilde \<and> has_shape n n a_tilde \<and>
           (\<forall>i<n. \<forall>j<n. entry a_tilde i j = fadd (entry a i j) (if i = j then Fin 1 else Fin 0)) \<and>
           SimpleGCN_forward g x a_tilde =
             spec_forward (torch_transpose (weight (gcn1 g))) (torch_transpose (weight (gcn2 g))) x a"
proof -
  let ?t = "mk n n (\<lambda>i j. fadd (entry a i j) (if i = j then Fin 1 else Fin 0))"
  have n: "nrows a = n" using sq by (simp add: has_shape_def)
  have t: "torch_add a (eye n) = Inr ?t" by (rule torch_add_eye [OF sq])
  have sh: "has_shape n n ?t" by simp
  have "SimpleGCN_forward g x ?t =
          spec_forward (torch_transpose (weight (gcn1 g))) (torch_transpose (weight (gcn2 g))) x a"
    by (simp add: spec_forward_def n t spec_normalizer_eq_adj_norm [OF sh] SimpleGCN_forward_def
        SimpleGCNLayer_forward_def spec_graph_conv_def spec_linear_def linear_fwd_def
        split: sum.splits)
  with t sh show ?thesis by simp
qed

lemma upt_2: "[0..<2] = [0, Suc 0]"
  by (simp add: upt_rec [of 0 2] upt_rec [of 1 2] upt_rec [of "Suc 0" 2])

lemma pow_neg_half_two_sq [simp]:
  "(2::real) powr (- (1 / 2)) * 2 powr (- (1 / 2)) = 1 / 2"
proof -
  have "(2::real) powr (- (1 / 2)) * 2 powr (- (1 / 2)) = 2 powr (- 1)"
    by (simp add: powr_add [symmetric])
  then show ?thesis by (simp add: powr_minus)
qed

lemmas eval_simps = SimpleGCN_forward_def SimpleGCNLayer_forward_def linear_fwd_def torch_mm_def
  torch_transpose_def relu_def mk_def entry_def nrows_def upt_2

text \<open>
  On the two-node graph with one edge and no self-loops the forward pass and the stack of
  the specification differ: the code normalizes the adjacency as given.
\<close>

theorem forward_adds_no_self_loops_counterexample:
  "SimpleGCN_forward
     \<lparr>gcn1 = \<lparr>weight = \<lparr>ncols = 1, rows = [[Fin 1]]\<rparr>\<rparr>,
      gcn2 = \<lparr>weight = \<lparr>ncols = 1, rows = [[Fin 1]]\<rparr>\<rparr>\<rparr>
     \<lparr>ncols = 1, rows = [[Fin 1], [Fin 0]]\<rparr>
     \<lparr>ncols = 2, rows = [[Fin 0, Fin 1], [Fin 1, Fin 0]]\<rparr>
   = Inr \<lparr>ncols = 1, rows = [[Fin 1], [Fin 0]]\<rparr> \<and>
   spec_forward \<lparr>ncols = 1, rows = [[Fin 1]]\<rparr> \<lparr>ncols = 1, rows = [[Fin 1]]\<rparr>
     \<lparr>ncols = 1, rows = [[Fin 1], [Fin 0]]\<rparr>
     \<lparr>ncols = 2, rows = [[Fin 0, Fin 1], [Fin 1, Fin 0]]\<rparr>
   = Inr \<lparr>ncols = 1, rows = [[Fin (1 / 2)], [Fin (1 / 2)]]\<rparr>"
proof -
  let ?A = "\<lparr>ncols = 2, rows = [[Fin 0, Fin 1], [Fin 1, Fin 0]]\<rparr>"
  let ?At = "\<lparr>ncols = 2, rows = [[Fin 1, Fin 1], [Fin 1, Fin 1]]\<rparr>"
  have nr: "nrows ?A = 2"
    by (simp add: nrows_def)
  have a: "torch_add ?A (eye (nrows ?A)) = Inr ?At"
    by (simp add: nr torch_add_eye [OF has_shape_lit2] mk_def upt_2 entry_def)
  have n: "spec_normalizer ?At =
      Inr \<lparr>ncols = 2, rows = [[Fin (1 / 2), Fin (1 / 2)], [Fin (1 / 2), Fin (1 / 2)]]\<rparr>"
    by (simp add: spec_normalizer_eq_adj_norm [OF has_shape_lit2] adj_norm_lit2 dis_val_def)
  have c: "adj_norm ?A = Inr ?A"
    by (simp add: adj_norm_lit2)
  have code: "SimpleGCN_forward
     \<lparr>gcn1 = \<lparr>weight = \<lparr>ncols = 1, rows = [[Fin 1]]\<rparr>\<rparr>,
      gcn2 = \<lparr>weight = \<lparr>ncols = 1, rows = [[Fin 1]]\<rparr>\<rparr>\<rparr>
     \<lparr>ncols = 1, rows = [[Fin 1], [Fin 0]]\<rparr> ?A
   = Inr \<lparr>ncols = 1, rows = [[Fin 1], [Fin 0]]\<rparr>"
    by (simp add: c eval_simps)
  have spec: "spec_forward \<lparr>ncols = 1, rows = [[Fin 1]]\<rparr> \<lparr>ncols = 1, rows = [[Fin 1]]\<rparr>
     \<lparr>ncols = 1, rows = [[Fin 1], [Fin 0]]\<rparr> ?A
   = Inr \<lparr>ncols = 1, rows = [[Fin (1 / 2)], [Fin (1 / 2)]]\<rparr>"
    apply (simp only: spec_forward_def a n sum.case)
    apply (simp add: spec_graph_conv_def spec_linear_def eval_simps)
    done
  show ?thesis
    using code spec by (rule conjI)
qed

theorem forward_on_self_looped_witness:
  "has_shape 2 2 \<lparr>ncols = 2, rows = [[Fin 0, Fin 1], [Fin 1, Fin 0]]\<rparr> \<and>
   (\<exists>a_tilde. torch_add \<lparr>ncols = 2, rows = [[Fin 0, Fin 1], [Fin 1, Fin 0]]\<rparr> (eye 2) = Inr a_tilde \<and>
      entry a_tilde 0 0 = Fin 1 \<and>
      SimpleGCN_forward
        \<lparr>gcn1 = \<lparr>weight = \<lparr>ncols = 1, rows = [[Fin 1]]\<rparr>\<rparr>,
         gcn2 = \<lparr>weight = \<lparr>ncols = 1, rows = [[Fin 1]]\<rparr>\<rparr>\<rparr>
        \<lparr>ncols = 1, rows = [[Fin 1], [Fin 0]]\<rparr> a_tilde =
      spec_forward
        (torch_transpose \<lparr>ncols = 1, rows = [[Fin 1]]\<rparr>)
        (torch_transpose \<lparr>ncols = 1, rows = [[Fin 1]]\<rparr>)
        \<lparr>ncols = 1, rows = [[Fin 1], [Fin 0]]\<rparr>
        \<lparr>ncols = 2, rows = [[Fin 0, Fin 1], [Fin 1, Fin 0]]\<rparr>)"
proof -
  let ?A = "\<lparr>ncols = 2, rows = [[Fin 0, Fin 1], [Fin 1, Fin 0]]\<rparr>"
  let ?g = "\<lparr>gcn1 = \<lparr>weight = \<lparr>ncols = 1, rows = [[Fin 1]]\<rparr>\<rparr>,
         gcn2 = \<lparr>weight = \<lparr>ncols = 1, rows = [[Fin 1]]\<rparr>\<rparr>\<rparr>"
  let ?x = "\<lparr>ncols = 1, rows = [[Fin 1], [Fin 0]]\<rparr>"
  from forward_on_self_looped [OF has_shape_lit2, of "Fin 0" "Fin 1" "Fin 1" "Fin 0" ?g ?x]
  obtain a_tilde where
    t: "torch_add ?A (eye 2) = Inr a_tilde"
    and e: "\<forall>i<2. \<forall>j<2. entry a_tilde i j = fadd (entry ?A i j) (if i = j then Fin 1 else Fin 0)"
    and f: "SimpleGCN_forward ?g ?x a_tilde =
      spec_forward (torch_transpose (weight (gcn1 ?g))) (torch_transpose (weight (gcn2 ?g))) ?x ?A"
    by blast
  have "entry a_tilde 0 0 = Fin 1"
    using e [rule_format, of 0 0] by (simp add: entry_def)
  moreover have "SimpleGCN_forward ?g ?x a_tilde =
      spec_forward (torch_transpose \<lparr>ncols = 1, rows = [[Fin 1]]\<rparr>)
        (torch_transpose \<lparr>ncols = 1, rows = [[Fin 1]]\<rparr>) ?x ?A"
    using f by simp
  ultimately show ?thesis
    using t has_shape_lit2 by blast
qed























section \<open>Frame of the forward pass\<close>

lemma deref_old: "addr r < length h \<Longrightarrow> deref (h @ zs) r = deref h r"
  by (simp add: deref_def nth_append)

lemma deref_plain: "deref h \<lparr>addr = n, transposed = False\<rparr> = h ! n"
  by (simp add: deref_def)

lemma deref_view: "deref h (st_transpose \<lparr>addr = n, transposed = False\<rparr>) = torch_transpose (h ! n)"
  by (simp add: deref_def st_transpose_def)

lemma layer_st:
  assumes x: "addr x < length h" and a: "addr adj < length h"
    and w: "addr (weight_ref l) < length h"
  shows "\<exists>zs. snd (SimpleGCNLayer_forward_st l x adj h) = h @ zs \<and>
           result_valid (SimpleGCNLayer_forward_st l x adj h) \<and>
           result_value (SimpleGCNLayer_forward_st l x adj h) =
             SimpleGCNLayer_forward (layer_value h l) (deref h x) (deref h adj)"
proof -
  let ?A = "deref h adj"
  let ?deg = "torch_sum_dim1 ?A"
  let ?pow = "torch_pow_neg_half ?deg"
  let ?dis = "masked_assign ?pow (torch_isinf ?pow) (Fin 0)"
  let ?h3 = "h @ [?deg, ?dis]"
  let ?rdis = "\<lparr>addr = Suc (length h), transposed = False\<rparr>"
  let ?L = "SimpleGCNLayer_forward_st l x adj h"
  let ?P = "SimpleGCNLayer_forward (layer_value h l) (deref h x) ?A"
  have d: "degree_inv_sqrt ?A = ?dis"
    by (simp add: degree_inv_sqrt_def degree_def Let_def)
  have h3: "st_masked_assign ?rdis (st_isinf ?rdis (h @ [?deg, ?pow])) (Fin 0) (h @ [?deg, ?pow]) = ?h3"
    by (simp add: st_masked_assign_def st_isinf_def deref_def nth_append list_update_append)
  have L0: "?L =
      (case alloc_result (torch_mul ?dis ?A) ?h3 of
           (Inl e, h4) \<Rightarrow> (Inl e, h4)
         | (Inr t, h4) \<Rightarrow>
             (case st_mul t (st_transpose ?rdis) h4 of
                (Inl e, h5) \<Rightarrow> (Inl e, h5)
              | (Inr an, h5) \<Rightarrow>
                  (case st_mm an x h5 of
                     (Inl e, h6) \<Rightarrow> (Inl e, h6)
                   | (Inr x1, h6) \<Rightarrow> st_linear l x1 h6)))"
    using a
    by (simp add: SimpleGCNLayer_forward_st_def st_sum_dim1_def st_pow_neg_half_def alloc_def
        deref_old h3 [simplified] Let_def st_mul_def deref_plain nth_append
        cong del: prod.case_cong_weak sum.case_cong_weak)
  show ?thesis
  proof (cases "torch_mul ?dis ?A")
    case (Inl e)
    then have "?L = (Inl e, ?h3)" "?P = Inl e"
      by (simp_all add: L0 alloc_result_def SimpleGCNLayer_forward_def adj_norm_def d)
    then show ?thesis
      by (simp add: result_valid_def result_value_def)
  next
    case t: (Inr t)
    let ?h4 = "h @ [?deg, ?dis, t]"
    let ?rt = "\<lparr>addr = Suc (Suc (length h)), transposed = False\<rparr>"
    have L1: "?L =
      (case alloc_result (torch_mul t (torch_transpose ?dis)) ?h4 of
                (Inl e, h5) \<Rightarrow> (Inl e, h5)
              | (Inr an, h5) \<Rightarrow>
                  (case st_mm an x h5 of
                     (Inl e, h6) \<Rightarrow> (Inl e, h6)
                   | (Inr x1, h6) \<Rightarrow> st_linear l x1 h6))"
      by (simp add: L0 t alloc_result_def alloc_def st_mul_def deref_plain deref_view nth_append)
    show ?thesis
    proof (cases "torch_mul t (torch_transpose ?dis)")
      case (Inl e)
      then have "?L = (Inl e, ?h4)" "?P = Inl e"
        by (simp_all add: L1 alloc_result_def SimpleGCNLayer_forward_def adj_norm_def d t)
      then show ?thesis
        by (simp add: result_valid_def result_value_def)
    next
      case an: (Inr an)
      let ?h5 = "h @ [?deg, ?dis, t, an]"
      have L2: "?L =
        (case alloc_result (torch_mm an (deref h x)) ?h5 of
                     (Inl e, h6) \<Rightarrow> (Inl e, h6)
                   | (Inr x1, h6) \<Rightarrow> st_linear l x1 h6)"
        using x
        by (simp add: L1 an alloc_result_def alloc_def st_mm_def deref_plain deref_old nth_append)
      have P2: "?P = (case torch_mm an (deref h x) of Inl e \<Rightarrow> Inl e
                      | Inr x1 \<Rightarrow> linear_fwd (layer_value h l) x1)"
        by (simp add: SimpleGCNLayer_forward_def adj_norm_def d t an)
      show ?thesis
      proof (cases "torch_mm an (deref h x)")
        case (Inl e)
        then have "?L = (Inl e, ?h5)" "?P = Inl e"
          by (simp_all add: L2 P2 alloc_result_def)
        then show ?thesis
          by (simp add: result_valid_def result_value_def)
      next
        case x1: (Inr x1)
        let ?h6 = "h @ [?deg, ?dis, t, an, x1]"
        let ?res = "torch_mm x1 (torch_transpose (deref h (weight_ref l)))"
        have L3: "?L = alloc_result ?res ?h6"
          using w
          by (simp add: L2 x1 alloc_result_def alloc_def st_linear_def deref_plain deref_old
              nth_append)
        have P3: "?P = ?res"
          unfolding P2 x1 by (simp add: linear_fwd_def layer_value_def)
        show ?thesis
          by (cases ?res)
            (simp_all add: L3 P3 alloc_result_def alloc_def result_valid_def result_value_def
              deref_plain nth_append)
      qed
    qed
  qed
qed


lemma forward_st_frame:
  assumes x: "addr x < length h" and a: "addr adj < length h"
    and w1: "addr (weight_ref (gcn1_obj g)) < length h"
    and w2: "addr (weight_ref (gcn2_obj g)) < length h"
  shows "\<exists>zs. snd (SimpleGCN_forward_st g x adj h) = h @ zs \<and>
           (\<forall>p<length h. snd (SimpleGCN_forward_st g x adj h) ! p = h ! p) \<and>
           result_valid (SimpleGCN_forward_st g x adj h) \<and>
           result_value (SimpleGCN_forward_st g x adj h) =
             SimpleGCN_forward (model_value h g) (deref h x) (deref h adj)"
proof -
  let ?L1 = "SimpleGCNLayer_forward_st (gcn1_obj g) x adj h"
  let ?F = "SimpleGCN_forward_st g x adj h"
  let ?P = "SimpleGCN_forward (model_value h g) (deref h x) (deref h adj)"
  from layer_st [OF x a w1] obtain zs where
    s1: "snd ?L1 = h @ zs" and v1: "result_valid ?L1"
    and r1: "result_value ?L1 =
         SimpleGCNLayer_forward (layer_value h (gcn1_obj g)) (deref h x) (deref h adj)"
    by blast
  have frame: "\<exists>zs. snd ?F = h @ zs \<and> result_valid ?F \<and> result_value ?F = ?P"
  proof (cases "fst ?L1")
    case (Inl e)
    then have L: "?L1 = (Inl e, h @ zs)"
      using s1 by (simp add: prod_eq_iff)
    then have "?F = (Inl e, h @ zs)"
      by (simp add: SimpleGCN_forward_st_def)
    moreover have "SimpleGCNLayer_forward (layer_value h (gcn1_obj g)) (deref h x) (deref h adj)
          = Inl e"
      using r1 by (simp add: L result_value_def)
    then have "?P = Inl e"
      by (simp add: SimpleGCN_forward_def model_value_def)
    ultimately show ?thesis
      by (simp add: result_valid_def result_value_def)
  next
    case (Inr r1)
    then have L: "?L1 = (Inr r1, h @ zs)"
      using s1 by (simp add: prod_eq_iff)
    let ?h1 = "h @ zs"
    let ?x1 = "deref ?h1 r1"
    let ?h2 = "?h1 @ [relu ?x1]"
    let ?r2 = "\<lparr>addr = length ?h1, transposed = False\<rparr>"
    let ?L2 = "SimpleGCNLayer_forward_st (gcn2_obj g) ?r2 adj ?h2"
    have p1: "SimpleGCNLayer_forward (layer_value h (gcn1_obj g)) (deref h x) (deref h adj) = Inr ?x1"
      using r1 by (simp add: L result_value_def)
    have F: "?F = ?L2"
      by (simp add: SimpleGCN_forward_st_def L st_relu_def alloc_def)
    have x2: "addr ?r2 < length ?h2" by simp
    have a2: "addr adj < length ?h2" using a by simp
    have w2': "addr (weight_ref (gcn2_obj g)) < length ?h2" using w2 by simp
    from layer_st [OF x2 a2 w2'] obtain zs2 where
      s2: "snd ?L2 = ?h2 @ zs2" and v2: "result_valid ?L2"
      and r2: "result_value ?L2 =
         SimpleGCNLayer_forward (layer_value ?h2 (gcn2_obj g)) (deref ?h2 ?r2) (deref ?h2 adj)"
      by blast
    have lv: "layer_value ?h2 (gcn2_obj g) = layer_value h (gcn2_obj g)"
      using w2 by (simp add: layer_value_def deref_def nth_append)
    have da: "deref ?h2 adj = deref h adj"
      using a by (simp add: deref_def nth_append)
    have dx: "deref ?h2 ?r2 = relu ?x1"
      by (simp add: deref_def)
    have "?P = SimpleGCNLayer_forward (layer_value h (gcn2_obj g)) (relu ?x1) (deref h adj)"
      using p1 by (simp add: SimpleGCN_forward_def model_value_def)
    then have "result_value ?F = ?P"
      by (simp only: F r2 lv da dx)
    moreover have "snd ?F = h @ (zs @ relu ?x1 # zs2)"
      unfolding F s2 by simp
    moreover have "result_valid ?F"
      unfolding F by (rule v2)
    ultimately show ?thesis
      by blast
  qed
  then obtain zs' where z: "snd ?F = h @ zs'" and v: "result_valid ?F" and r: "result_value ?F = ?P"
    by blast
  have "\<forall>p<length h. snd ?F ! p = h ! p"
    by (simp add: z nth_append)
  with z v r show ?thesis by blast
qed

text \<open>
  Claim C9. A call of \<^verbatim>\<open>SimpleGCN.forward\<close> on allocated inputs only appends to the
  store: every tensor that existed before the call, among them \<open>X\<close>, \<open>A\<close> and both
  weights, is unchanged afterwards, and the only storage written in place is allocated
  by the call itself. The value returned, or the error raised, is the value of the pure
  function \<open>SimpleGCN_forward\<close> at the values of \<open>X\<close>, \<open>A\<close>, \<open>W1\<close> and \<open>W2\<close>, so two
  calls on equal inputs return equal outputs.
\<close>

theorem forward_leaves_inputs_unchanged:
  assumes x: "addr x < length h" and a: "addr adj < length h"
    and w1: "addr (weight_ref (gcn1_obj g)) < length h"
    and w2: "addr (weight_ref (gcn2_obj g)) < length h"
  shows "(\<exists>zs. snd (SimpleGCN_forward_st g x adj h) = h @ zs) \<and>
         (\<forall>p<length h. snd (SimpleGCN_forward_st g x adj h) ! p = h ! p) \<and>
         result_valid (SimpleGCN_forward_st g x adj h) \<and>
         result_value (SimpleGCN_forward_st g x adj h) =
           SimpleGCN_forward (model_value h g) (deref h x) (deref h adj) \<and>
         (\<forall>h' g' x' adj'.
            addr x' < length h' \<and> addr adj' < length h' \<and>
            addr (weight_ref (gcn1_obj g')) < length h' \<and>
            addr (weight_ref (gcn2_obj g')) < length h' \<and>
            deref h' x' = deref h x \<and> deref h' adj' = deref h adj \<and>
            model_value h' g' = model_value h g \<longrightarrow>
            result_value (SimpleGCN_forward_st g' x' adj' h') =
              result_value (SimpleGCN_forward_st g x adj h))"
proof -
  from forward_st_frame [OF x a w1 w2] have
    1: "\<exists>zs. snd (SimpleGCN_forward_st g x adj h) = h @ zs"
    and 2: "\<forall>p<length h. snd (SimpleGCN_forward_st g x adj h) ! p = h ! p"
    and 3: "result_valid (SimpleGCN_forward_st g x adj h)"
    and 4: "result_value (SimpleGCN_forward_st g x adj h) =
           SimpleGCN_forward (model_value h g) (deref h x) (deref h adj)"
    by blast+
  have 5: "result_value (SimpleGCN_forward_st g' x' adj' h') =
              result_value (SimpleGCN_forward_st g x adj h)"
    if "addr x' < length h' \<and> addr adj' < length h' \<and>
            addr (weight_ref (gcn1_obj g')) < length h' \<and>
            addr (weight_ref (gcn2_obj g')) < length h' \<and>
            deref h' x' = deref h x \<and> deref h' adj' = deref h adj \<and>
            model_value h' g' = model_value h g" for h' g' x' adj'
  proof -
    from that have v: "addr x' < length h'" "addr adj' < length h'"
      "addr (weight_ref (gcn1_obj g')) < length h'" "addr (weight_ref (gcn2_obj g')) < length h'"
      and e: "deref h' x' = deref h x" "deref h' adj' = deref h adj"
        "model_value h' g' = model_value h g"
      by simp_all
    from forward_st_frame [OF v] have
      "result_value (SimpleGCN_forward_st g' x' adj' h') =
         SimpleGCN_forward (model_value h' g') (deref h' x') (deref h' adj')"
      by blast
    then show ?thesis
      by (simp only: e 4)
  qed
  from 1 2 3 4 5 show ?thesis by blast
qed

theorem forward_leaves_inputs_unchanged_witness:
  "snd (SimpleGCN_forward_st
          \<lparr>gcn1_obj = \<lparr>weight_ref = \<lparr>addr = 2, transposed = False\<rparr>\<rparr>,
           gcn2_obj = \<lparr>weight_ref = \<lparr>addr = 3, transposed = False\<rparr>\<rparr>\<rparr>
          \<lparr>addr = 0, transposed = False\<rparr> \<lparr>addr = 1, transposed = False\<rparr>
          [\<lparr>ncols = 1, rows = [[Fin 2], [Fin (- 3)]]\<rparr>,
           \<lparr>ncols = 2, rows = [[Fin 1, Fin 1], [Fin 1, Fin 1]]\<rparr>,
           \<lparr>ncols = 1, rows = [[Fin 1]]\<rparr>,
           \<lparr>ncols = 1, rows = [[Fin 1]]\<rparr>]) ! 1 =
     \<lparr>ncols = 2, rows = [[Fin 1, Fin 1], [Fin 1, Fin 1]]\<rparr> \<and>
   result_value (SimpleGCN_forward_st
          \<lparr>gcn1_obj = \<lparr>weight_ref = \<lparr>addr = 0, transposed = False\<rparr>\<rparr>,
           gcn2_obj = \<lparr>weight_ref = \<lparr>addr = 0, transposed = False\<rparr>\<rparr>\<rparr>
          \<lparr>addr = 2, transposed = False\<rparr> \<lparr>addr = 1, transposed = False\<rparr>
          [\<lparr>ncols = 1, rows = [[Fin 1]]\<rparr>,
           \<lparr>ncols = 2, rows = [[Fin 1, Fin 1], [Fin 1, Fin 1]]\<rparr>,
           \<lparr>ncols = 1, rows = [[Fin 2], [Fin (- 3)]]\<rparr>]) =
   result_value (SimpleGCN_forward_st
          \<lparr>gcn1_obj = \<lparr>weight_ref = \<lparr>addr = 2, transposed = False\<rparr>\<rparr>,
           gcn2_obj = \<lparr>weight_ref = \<lparr>addr = 3, transposed = False\<rparr>\<rparr>\<rparr>
          \<lparr>addr = 0, transposed = False\<rparr> \<lparr>addr = 1, transposed = False\<rparr>
          [\<lparr>ncols = 1, rows = [[Fin 2], [Fin (- 3)]]\<rparr>,
           \<lparr>ncols = 2, rows = [[Fin 1, Fin 1], [Fin 1, Fin 1]]\<rparr>,
           \<lparr>ncols = 1, rows = [[Fin 1]]\<rparr>,
           \<lparr>ncols = 1, rows = [[Fin 1]]\<rparr>])"
proof -
  let ?h = "[\<lparr>ncols = 1, rows = [[Fin 2], [Fin (- 3)]]\<rparr>,
              \<lparr>ncols = 2, rows = [[Fin 1, Fin 1], [Fin 1, Fin 1]]\<rparr>,
              \<lparr>ncols = 1, rows = [[Fin 1]]\<rparr>,
              \<lparr>ncols = 1, rows = [[Fin 1]]\<rparr>]"
  let ?g = "\<lparr>gcn1_obj = \<lparr>weight_ref = \<lparr>addr = 2, transposed = False\<rparr>\<rparr>,
              gcn2_obj = \<lparr>weight_ref = \<lparr>addr = 3, transposed = False\<rparr>\<rparr>\<rparr>"
  let ?x = "\<lparr>addr = 0, transposed = False\<rparr>"
  let ?a = "\<lparr>addr = 1, transposed = False\<rparr>"
  let ?h' = "[\<lparr>ncols = 1, rows = [[Fin 1]]\<rparr>,
           \<lparr>ncols = 2, rows = [[Fin 1, Fin 1], [Fin 1, Fin 1]]\<rparr>,
           \<lparr>ncols = 1, rows = [[Fin 2], [Fin (- 3)]]\<rparr>]"
  let ?g' = "\<lparr>gcn1_obj = \<lparr>weight_ref = \<lparr>addr = 0, transposed = False\<rparr>\<rparr>,
           gcn2_obj = \<lparr>weight_ref = \<lparr>addr = 0, transposed = False\<rparr>\<rparr>\<rparr>"
  let ?x' = "\<lparr>addr = 2, transposed = False\<rparr>"
  have x: "addr ?x < length ?h" by simp
  have a: "addr ?a < length ?h" by simp
  have w1: "addr (weight_ref (gcn1_obj ?g)) < length ?h" by simp
  have w2: "addr (weight_ref (gcn2_obj ?g)) < length ?h" by simp
  note t = forward_leaves_inputs_unchanged [OF x a w1 w2]
  have second: "addr ?x' < length ?h' \<and> addr ?a < length ?h' \<and>
            addr (weight_ref (gcn1_obj ?g')) < length ?h' \<and>
            addr (weight_ref (gcn2_obj ?g')) < length ?h' \<and>
            deref ?h' ?x' = deref ?h ?x \<and> deref ?h' ?a = deref ?h ?a \<and>
            model_value ?h' ?g' = model_value ?h ?g"
    by (simp add: deref_def model_value_def layer_value_def)
  from t have "snd (SimpleGCN_forward_st ?g ?x ?a ?h) ! 1 = ?h ! 1"
    by simp
  then have p: "snd (SimpleGCN_forward_st ?g ?x ?a ?h) ! 1 =
      \<lparr>ncols = 2, rows = [[Fin 1, Fin 1], [Fin 1, Fin 1]]\<rparr>"
    by simp
  from t second have q: "result_value (SimpleGCN_forward_st ?g' ?x' ?a ?h') =
              result_value (SimpleGCN_forward_st ?g ?x ?a ?h)"
    by blast
  from p q show ?thesis by (rule conjI)
qed

end
